theory Spec2Isabelle
  imports Complex_Main "HOL-Library.AList" "HOL-Library.Multiset"
begin

section \<open>JavaScript numbers and objects\<close>

text \<open>
  The program is JavaScript. A number is an IEEE 754 double or \<open>NaN\<close>, the value every
  arithmetic operation yields on \<open>undefined\<close>. A double is modelled by the rational it
  denotes. In the controller, whose results are compared for equality, \<open>+\<close>, \<open>-\<close>, \<open>*\<close>
  and \<open>/\<close> round their exact result to the nearest double, ties to even, as the hardware
  does (\<open>js_add\<close>, \<open>js_sub\<close>, \<open>js_mul\<close>, \<open>js_div\<close>). Results beyond the range of doubles
  (above about \<open>1.8e308\<close>) and the infinities are not modelled; the controller divides
  only by a total that it has compared with zero before, and a division by zero reads as
  \<open>NaN\<close>. The sensor and the scheduler compute on the rationals without rounding: what is
  stated of them below is which fields a call assigns.
  Reading a property an object does not have gives \<open>undefined\<close>, which every use below
  feeds into arithmetic, so it reads as \<open>NaN\<close>.
\<close>

text \<open>The number of binary digits of a natural number.\<close>

fun bitLength :: "nat \<Rightarrow> nat" where
  "bitLength n = (if n = 0 then 0 else Suc (bitLength (n div 2)))"

declare bitLength.simps [simp del]

text \<open>The exponent \<open>e\<close> of a rational that is not zero: \<open>2 ^ e \<le> \<bar>x\<bar> < 2 ^ (e + 1)\<close>.\<close>

definition binade :: "rat \<Rightarrow> int" where
  "binade x =
     (if \<bar>x\<bar> \<ge> 1 then int (bitLength (nat \<lfloor>\<bar>x\<bar>\<rfloor>)) - 1
      else - int (bitLength (nat (\<lceil>1 / \<bar>x\<bar>\<rceil> - 1))))"

definition pow2 :: "int \<Rightarrow> rat" where
  "pow2 e = (if e \<ge> 0 then 2 ^ nat e else 1 / 2 ^ nat (- e))"

definition roundHalfEven :: "rat \<Rightarrow> int" where
  "roundHalfEven y =
     (let f = \<lfloor>y\<rfloor>; r = y - of_int f
      in if r < 1 / 2 then f else if r > 1 / 2 then f + 1 else if even f then f else f + 1)"

text \<open>
  The nearest double: 53 significant bits, and below \<open>2 ^ -1022\<close> the fixed spacing
  \<open>2 ^ -1074\<close> of the subnormal numbers.
\<close>

definition toDouble :: "rat \<Rightarrow> rat" where
  "toDouble x =
     (if x = 0 then 0
      else
        let ulp = pow2 (max (binade x) (- 1022) - 52)
        in of_int (roundHalfEven (x / ulp)) * ulp)"

datatype number = NaN | Num rat

fun js_add :: "number \<Rightarrow> number \<Rightarrow> number" where
  "js_add (Num a) (Num b) = Num (toDouble (a + b))"
| "js_add _ _ = NaN"

fun js_sub :: "number \<Rightarrow> number \<Rightarrow> number" where
  "js_sub (Num a) (Num b) = Num (toDouble (a - b))"
| "js_sub _ _ = NaN"

fun js_mul :: "number \<Rightarrow> number \<Rightarrow> number" where
  "js_mul (Num a) (Num b) = Num (toDouble (a * b))"
| "js_mul _ _ = NaN"

fun js_div :: "number \<Rightarrow> number \<Rightarrow> number" where
  "js_div (Num a) (Num b) = (if b = 0 then NaN else Num (toDouble (a / b)))"
| "js_div _ _ = NaN"

text \<open>The floor, the minimum, the maximum and the sign of doubles are exact.\<close>

fun js_floor :: "number \<Rightarrow> number" where
  "js_floor (Num a) = Num (of_int \<lfloor>a\<rfloor>)"
| "js_floor NaN = NaN"

fun js_min :: "number \<Rightarrow> number \<Rightarrow> number" where
  "js_min (Num a) (Num b) = Num (min a b)"
| "js_min _ _ = NaN"

fun js_max :: "number \<Rightarrow> number \<Rightarrow> number" where
  "js_max (Num a) (Num b) = Num (max a b)"
| "js_max _ _ = NaN"

fun js_sign :: "number \<Rightarrow> number" where
  "js_sign (Num a) = Num (sgn a)"
| "js_sign NaN = NaN"

text \<open>Comparisons with \<open>NaN\<close> are false, strict equality included.\<close>

fun js_ge :: "number \<Rightarrow> number \<Rightarrow> bool" where
  "js_ge (Num a) (Num b) = (a \<ge> b)"
| "js_ge _ _ = False"

fun js_le :: "number \<Rightarrow> number \<Rightarrow> bool" where
  "js_le (Num a) (Num b) = (a \<le> b)"
| "js_le _ _ = False"

fun js_gt :: "number \<Rightarrow> number \<Rightarrow> bool" where
  "js_gt (Num a) (Num b) = (a > b)"
| "js_gt _ _ = False"

fun js_eq :: "number \<Rightarrow> number \<Rightarrow> bool" where
  "js_eq (Num a) (Num b) = (a = b)"
| "js_eq _ _ = False"

text \<open>
  An object is the list of its properties in insertion order. \<open>AList.update\<close> is the
  assignment \<open>obj[k] = v\<close>: it overwrites in place or appends a new key.
\<close>

type_synonym 'a object = "(string \<times> 'a) list"

definition getNum :: "number object \<Rightarrow> string \<Rightarrow> number" where
  "getNum obj k = (case map_of obj k of None \<Rightarrow> NaN | Some v \<Rightarrow> v)"

text \<open>\<open>Object.values(obj).reduce((sum, v) => sum + v, 0)\<close>\<close>

definition sumValues :: "number object \<Rightarrow> number" where
  "sumValues obj = foldl js_add (Num 0) (map snd obj)"

text \<open>
  \<open>Array.prototype.sort\<close> with a comparator, as V8 (Chrome, Node) sorts an array of fewer
  than 64 elements: a comparator result \<open>NaN\<close> counts as \<open>0\<close>; the longest run at the front
  that is already ascending, or strictly descending and then reversed, is kept; every
  further element is inserted into the run at the place a binary search finds. The sort is
  stable, so for a comparator that orders the elements consistently every engine gives
  this result; where it does not, the language leaves the order to the engine.
\<close>

definition sortCompare :: "('a \<Rightarrow> 'a \<Rightarrow> number) \<Rightarrow> 'a \<Rightarrow> 'a \<Rightarrow> rat" where
  "sortCompare cmp x y = (case cmp x y of NaN \<Rightarrow> 0 | Num v \<Rightarrow> v)"

fun runRest :: "('a \<Rightarrow> 'a \<Rightarrow> number) \<Rightarrow> bool \<Rightarrow> 'a \<Rightarrow> 'a list \<Rightarrow> nat" where
  "runRest cmp isDescending previousElement [] = 0"
| "runRest cmp isDescending previousElement (currentElement # rest) =
     (let order = sortCompare cmp currentElement previousElement
      in if isDescending
         then (if order \<ge> 0 then 0 else Suc (runRest cmp isDescending currentElement rest))
         else (if order < 0 then 0 else Suc (runRest cmp isDescending currentElement rest)))"

definition countAndMakeRun :: "('a \<Rightarrow> 'a \<Rightarrow> number) \<Rightarrow> 'a list \<Rightarrow> 'a list \<times> nat" where
  "countAndMakeRun cmp xs =
     (case xs of
        elementHigh # elementLow # rest \<Rightarrow>
          let isDescending = sortCompare cmp elementLow elementHigh < 0;
              runLength = 2 + runRest cmp isDescending elementLow rest
          in (if isDescending then rev (take runLength xs) @ drop runLength xs else xs,
              runLength)
      | _ \<Rightarrow> (xs, length xs))"

text \<open>The search reads \<open>run ! mid\<close> only for \<open>mid < right\<close>, inside the run.\<close>

function binarySearch :: "('a \<Rightarrow> 'a \<Rightarrow> number) \<Rightarrow> 'a list \<Rightarrow> 'a \<Rightarrow> nat \<Rightarrow> nat \<Rightarrow> nat" where
  "binarySearch cmp run pivot left right =
     (if left < right
      then
        let mid = left + (right - left) div 2
        in if sortCompare cmp pivot (run ! mid) < 0
           then binarySearch cmp run pivot left mid
           else binarySearch cmp run pivot (mid + 1) right
      else left)"
  by pat_completeness auto
termination
  by (relation "measure (\<lambda>(cmp, run, pivot, left, right). right - left)") auto

declare binarySearch.simps [simp del]

fun binaryInsertionSort :: "('a \<Rightarrow> 'a \<Rightarrow> number) \<Rightarrow> 'a list \<Rightarrow> 'a list \<Rightarrow> 'a list" where
  "binaryInsertionSort cmp run [] = run"
| "binaryInsertionSort cmp run (pivot # rest) =
     (let left = binarySearch cmp run pivot 0 (length run)
      in binaryInsertionSort cmp (take left run @ pivot # drop left run) rest)"

definition sortBy :: "('a \<Rightarrow> 'a \<Rightarrow> number) \<Rightarrow> 'a list \<Rightarrow> 'a list" where
  "sortBy cmp xs =
     (if length xs < 2 then xs
      else
        let (ys, runLength) = countAndMakeRun cmp xs
        in binaryInsertionSort cmp (take runLength ys) (drop runLength ys))"

text \<open>\<open>v || d\<close> on an optional number: \<open>undefined\<close> and \<open>0\<close> are falsy.\<close>

definition orDefault :: "rat option \<Rightarrow> rat \<Rightarrow> rat" where
  "orDefault v d = (case v of None \<Rightarrow> d | Some x \<Rightarrow> if x = 0 then d else x)"

section \<open>AdaptiveController (src/js/controller.js)\<close>

text \<open>Every failure of the program is a thrown \<open>Error\<close>; the constructors name the throw sites.\<close>

datatype error =
    DensitiesMustBeObject
  | MinGreenNotLessThanMaxGreen
  | CycleTooShort rat rat
  | TimingNotPositive
  | InvalidLane string
  | EmaOutOfRange
  | SpeedOutOfRange

record controller =
  cycleLength :: rat
  minGreen :: rat
  maxGreen :: rat
  yellowTime :: rat
  allRedTime :: rat
  lanes :: "string list"

text \<open>A configuration object as a caller passes it: an absent field is \<open>None\<close>.\<close>

record config =
  cfgCycleLength :: "rat option"
  cfgMinGreen :: "rat option"
  cfgMaxGreen :: "rat option"
  cfgYellowTime :: "rat option"
  cfgAllRedTime :: "rat option"

definition validateConfig :: "controller \<Rightarrow> error + unit" where
  "validateConfig c =
     (if minGreen c \<ge> maxGreen c then Inl MinGreenNotLessThanMaxGreen
      else
        let fixedTime =
              toDouble (of_nat (length (lanes c)) * toDouble (yellowTime c + allRedTime c));
            minAvailable = toDouble (of_nat (length (lanes c)) * minGreen c)
        in if toDouble (fixedTime + minAvailable) > cycleLength c
           then Inl (CycleTooShort (cycleLength c) (toDouble (fixedTime + minAvailable)))
           else if cycleLength c \<le> 0 \<or> minGreen c < 0 \<or> maxGreen c < 0
           then Inl TimingNotPositive
           else Inr ())"

definition newAdaptiveController :: "config \<Rightarrow> error + controller" where
  "newAdaptiveController cfg =
     (let c = \<lparr> cycleLength = orDefault (cfgCycleLength cfg) 60,
                 minGreen = orDefault (cfgMinGreen cfg) 10,
                 maxGreen = orDefault (cfgMaxGreen cfg) 60,
                 yellowTime = orDefault (cfgYellowTime cfg) 3,
                 allRedTime = orDefault (cfgAllRedTime cfg) 2,
                 lanes = [''north'', ''south'', ''east'', ''west''] \<rparr>
      in case validateConfig c of Inl e \<Rightarrow> Inl e | Inr _ \<Rightarrow> Inr c)"

text \<open>
  \<open>updateConfig\<close> assigns the fields that are present and validates afterwards; the pair
  is what the call does (return or throw) and the controller it leaves.
\<close>

definition updateConfig :: "config \<Rightarrow> controller \<Rightarrow> (error + unit) \<times> controller" where
  "updateConfig newConfig c =
     (let c1 = (case cfgCycleLength newConfig of None \<Rightarrow> c | Some v \<Rightarrow> c\<lparr>cycleLength := v\<rparr>);
          c2 = (case cfgMinGreen newConfig of None \<Rightarrow> c1 | Some v \<Rightarrow> c1\<lparr>minGreen := v\<rparr>);
          c3 = (case cfgMaxGreen newConfig of None \<Rightarrow> c2 | Some v \<Rightarrow> c2\<lparr>maxGreen := v\<rparr>);
          c4 = (case cfgYellowTime newConfig of None \<Rightarrow> c3 | Some v \<Rightarrow> c3\<lparr>yellowTime := v\<rparr>);
          c5 = (case cfgAllRedTime newConfig of None \<Rightarrow> c4 | Some v \<Rightarrow> c4\<lparr>allRedTime := v\<rparr>)
      in (validateConfig c5, c5))"

definition getConfig :: "controller \<Rightarrow> config" where
  "getConfig c = \<lparr> cfgCycleLength = Some (cycleLength c), cfgMinGreen = Some (minGreen c),
                   cfgMaxGreen = Some (maxGreen c), cfgYellowTime = Some (yellowTime c),
                   cfgAllRedTime = Some (allRedTime c) \<rparr>"

text \<open>
  The redistribution loop \<open>for (const lane of sortedLanes)\<close>: one pass, carrying the
  allocation object and \<open>diff\<close>.
\<close>

fun redistributeLoop ::
  "controller \<Rightarrow> string list \<Rightarrow> number object \<Rightarrow> number \<Rightarrow> number object" where
  "redistributeLoop c [] greenTimes diff = greenTimes"
| "redistributeLoop c (lane # rest) greenTimes diff =
     (if js_eq diff (Num 0) then greenTimes
      else
        let adjustment = js_sign diff;
            newValue = js_add (getNum greenTimes lane) adjustment
        in if js_ge newValue (Num (minGreen c)) \<and> js_le newValue (Num (maxGreen c))
           then redistributeLoop c rest (AList.update lane newValue greenTimes)
                  (js_sub diff adjustment)
           else redistributeLoop c rest greenTimes diff)"

text \<open>
  \<open>this.lanes.sort(...)\<close> sorts the controller's own array, so \<open>redistribute\<close> returns the
  controller as well.
\<close>

definition redistribute ::
  "number object \<Rightarrow> number \<Rightarrow> number object \<Rightarrow> controller \<Rightarrow> number object \<times> controller" where
  "redistribute greenTimes targetSum densities c =
     (let currentSum = sumValues greenTimes;
          diff = js_sub targetSum currentSum
      in if js_eq diff (Num 0) then (greenTimes, c)
         else
           let sortedLanes =
                 sortBy (\<lambda>a b. js_sub (getNum densities b) (getNum densities a)) (lanes c);
               c' = c\<lparr>lanes := sortedLanes\<rparr>
           in (redistributeLoop c' sortedLanes greenTimes diff, c'))"

text \<open>
  The argument of \<open>computeGreenTimes\<close> is any value: the guard
  \<open>!densities || typeof densities !== 'object'\<close> decides. An object is an object of
  numbers here (arrays and objects with values of other types are left out).
\<close>

datatype jsValue =
    Undefined
  | Null
  | Boolean bool
  | Number number
  | String string
  | Object "number object"

fun falsy :: "jsValue \<Rightarrow> bool" where
  "falsy Undefined = True"
| "falsy Null = True"
| "falsy (Boolean b) = (\<not> b)"
| "falsy (Number NaN) = True"
| "falsy (Number (Num x)) = (x = 0)"
| "falsy (String s) = (s = [])"
| "falsy (Object obj) = False"

fun typeof :: "jsValue \<Rightarrow> string" where
  "typeof Undefined = ''undefined''"
| "typeof Null = ''object''"
| "typeof (Boolean b) = ''boolean''"
| "typeof (Number n) = ''number''"
| "typeof (String s) = ''string''"
| "typeof (Object obj) = ''object''"

definition availableTime :: "controller \<Rightarrow> rat" where
  "availableTime c =
     (let fixedTimePerLane = toDouble (yellowTime c + allRedTime c);
          totalFixedTime = toDouble (of_nat (length (lanes c)) * fixedTimePerLane)
      in toDouble (cycleLength c - totalFixedTime))"

definition rawGreen :: "controller \<Rightarrow> number object \<Rightarrow> number \<Rightarrow> number object" where
  "rawGreen c densities totalDensity =
     foldl (\<lambda>obj lane.
         let proportion = js_div (getNum densities lane) totalDensity
         in AList.update lane (js_mul proportion (Num (availableTime c))) obj)
       [] (lanes c)"

definition constrained :: "controller \<Rightarrow> number object \<Rightarrow> number object" where
  "constrained c raw =
     foldl (\<lambda>obj lane.
         AList.update lane
           (js_max (Num (minGreen c)) (js_min (Num (maxGreen c)) (js_floor (getNum raw lane))))
           obj)
       [] (lanes c)"

definition computeGreenTimes ::
  "jsValue \<Rightarrow> controller \<Rightarrow> (error + number object) \<times> controller" where
  "computeGreenTimes arg c =
     (if falsy arg \<or> typeof arg \<noteq> ''object'' then (Inl DensitiesMustBeObject, c)
      else
        case arg of
          Object densities \<Rightarrow>
            let totalDensity = sumValues densities
            in if js_eq totalDensity (Num 0)
               then (Inr (foldl (\<lambda>obj lane. AList.update lane (Num (minGreen c)) obj) []
                            (lanes c)), c)
               else
                 let (greenTimes, c') =
                       redistribute (constrained c (rawGreen c densities totalDensity))
                         (Num (availableTime c)) densities c
                 in (Inr greenTimes, c')
        | _ \<Rightarrow> (Inl DensitiesMustBeObject, c))"

section \<open>VirtualSensor (src/unnamed/part_002)\<close>

text \<open>
  \<open>smoothedDensity\<close> is a property the constructor does not create: \<open>None\<close> is
  \<open>typeof this.smoothedDensity === 'undefined'\<close>. \<open>overrideDensity\<close> is \<open>null\<close> or a number.
\<close>

record sensor =
  lane :: string
  lastDensity :: rat
  emaCoefficient :: rat
  overrideDensity :: "rat option"
  smoothedDensity :: "rat option"

record sensorConfig =
  cfgInitialDensity :: "rat option"
  cfgEmaCoefficient :: "rat option"

definition newVirtualSensor :: "string \<Rightarrow> sensorConfig \<Rightarrow> error + sensor" where
  "newVirtualSensor laneId cfg =
     (let s = \<lparr> lane = laneId,
                 lastDensity = orDefault (cfgInitialDensity cfg) 50,
                 emaCoefficient = orDefault (cfgEmaCoefficient cfg) (7 / 10),
                 overrideDensity = None,
                 smoothedDensity = None \<rparr>
      in if laneId \<notin> set [''north'', ''south'', ''east'', ''west''] then Inl (InvalidLane laneId)
         else if emaCoefficient s < 0 \<or> emaCoefficient s > 1 then Inl EmaOutOfRange
         else Inr s)"

text \<open>
  The hour is \<open>date.getHours()\<close>: \<open>None\<close> is the \<open>NaN\<close> of an invalid date, for which every
  comparison is false.
\<close>

definition peakFactor :: "nat option \<Rightarrow> rat" where
  "peakFactor hour =
     (case hour of
        None \<Rightarrow> 1
      | Some h \<Rightarrow>
          if (h \<ge> 7 \<and> h \<le> 9) \<or> (h \<ge> 17 \<and> h \<le> 19) then 3 / 2
          else if h \<ge> 22 \<or> h \<le> 5 then 3 / 10
          else 1)"

text \<open>
  \<open>_gaussianRandom\<close> scales a standard normal draw \<open>z\<close>. The Box-Muller transform that
  produces \<open>z\<close> from two calls of \<open>Math.random\<close> is the environment's: \<open>z\<close> is an argument.
\<close>

definition gaussianRandom :: "rat \<Rightarrow> rat \<Rightarrow> rat \<Rightarrow> rat" where
  "gaussianRandom mean stdDev z = mean + stdDev * z"

definition generateDensity :: "nat option \<Rightarrow> rat \<Rightarrow> sensor \<Rightarrow> rat \<times> sensor" where
  "generateDensity hour z s =
     (let baseDensity = 50;
          stdDev = 15;
          randomGaussian = gaussianRandom baseDensity stdDev z;
          computedPercent = max 0 (min 100 (randomGaussian * peakFactor hour));
          targetDensity = (case overrideDensity s of Some v \<Rightarrow> v | None \<Rightarrow> computedPercent);
          smoothed = (case smoothedDensity s of
                        None \<Rightarrow> targetDensity
                      | Some sm \<Rightarrow> sm + emaCoefficient s * (targetDensity - sm));
          finalDensity = max 0 (min 100 smoothed)
      in (finalDensity, s\<lparr>smoothedDensity := Some smoothed, lastDensity := finalDensity\<rparr>))"

definition setDensity :: "rat \<Rightarrow> sensor \<Rightarrow> sensor" where
  "setDensity v s =
     (let percent = max 0 (min 100 v);
          s1 = s\<lparr>overrideDensity := Some percent, lastDensity := percent\<rparr>
      in case smoothedDensity s1 of
           None \<Rightarrow> s1
         | Some _ \<Rightarrow> s1\<lparr>smoothedDensity := Some percent\<rparr>)"

definition VirtualSensor_reset :: "sensor \<Rightarrow> sensor" where
  "VirtualSensor_reset s = s\<lparr>lastDensity := 50, overrideDensity := None\<rparr>"

section \<open>Simulator (src/js/simulator.js)\<close>

datatype signal = RED | GREEN

text \<open>The record a tick hands to the dashboard.\<close>

record tickState =
  stCycleCount :: nat
  stDensities :: "number object"
  stGreenTimes :: "number object"
  stSignals :: "signal object"
  stTimestamp :: rat
  stLatency :: rat
  stMessagesProcessed :: nat
  stElapsedTime :: rat
  stTotalDuration :: rat

text \<open>
  The dashboard is outside the core: it is modelled as the records it has received since
  its last reset. \<open>intervalId\<close> is the period of the live interval timer, \<open>None\<close> when
  there is none. \<open>simulationStartTime\<close> is \<open>null\<close> or milliseconds.
\<close>

record simulator =
  sensors :: "sensor object"
  controller :: controller
  dashboard :: "tickState list"
  isPaused :: bool
  isRunning :: bool
  speedMultiplier :: rat
  tickInterval :: rat
  intervalId :: "rat option"
  cycleCount :: nat
  simulationDurationSeconds :: rat
  simulationStartTime :: "rat option"
  elapsedTimeSeconds :: rat
  pausedAtSeconds :: rat

text \<open>
  What a call reads from outside: \<open>Date.now()\<close>, the normal draw of each lane's sensor
  and the \<open>Math.random()\<close> of the latency field.
\<close>

record env =
  now :: rat
  gauss :: "string \<Rightarrow> rat"
  random :: rat

definition newSimulator :: "sensor object \<Rightarrow> controller \<Rightarrow> tickState list \<Rightarrow> simulator" where
  "newSimulator sns ctl dsh =
     \<lparr> sensors = sns, controller = ctl, dashboard = dsh,
       isPaused = False, isRunning = False, speedMultiplier = 1, tickInterval = 2000,
       intervalId = None, cycleCount = 0, simulationDurationSeconds = 0,
       simulationStartTime = None, elapsedTimeSeconds = 0, pausedAtSeconds = 0 \<rparr>"

definition start :: "rat \<Rightarrow> env \<Rightarrow> simulator \<Rightarrow> simulator" where
  "start durationSeconds e s =
     (if isRunning s \<and> \<not> isPaused s then s
      else if isPaused s then s\<lparr>isPaused := False\<rparr>
      else s\<lparr> isRunning := True, isPaused := False,
              simulationDurationSeconds := durationSeconds,
              simulationStartTime := Some (now e),
              cycleCount := 0, elapsedTimeSeconds := 0, pausedAtSeconds := 0,
              dashboard := [],
              intervalId := Some (tickInterval s / speedMultiplier s) \<rparr>)"

definition stop :: "simulator \<Rightarrow> simulator" where
  "stop s = s\<lparr>intervalId := None, isRunning := False, isPaused := False\<rparr>"

text \<open>
  \<open>for (const [lane, sensor] of Object.entries(this.sensors))\<close>: every sensor is sampled,
  without a timestamp, so its hour is that of an invalid date.
\<close>

fun sampleSensors :: "env \<Rightarrow> sensor object \<Rightarrow> number object \<times> sensor object" where
  "sampleSensors e [] = ([], [])"
| "sampleSensors e ((laneId, sn) # rest) =
     (let (v, sn') = generateDensity None (gauss e laneId) sn;
          (densities, rest') = sampleSensors e rest
      in ((laneId, Num v) # densities, (laneId, sn') # rest'))"

text \<open>
  \<open>_computeSignals\<close>: \<open>reduce\<close> without an initial value throws on an object with no
  keys, which is \<open>None\<close>.
\<close>

definition computeSignals :: "number object \<Rightarrow> signal object option" where
  "computeSignals greenTimes =
     (let signals = foldl (\<lambda>obj laneId. AList.update laneId RED obj) [] (map fst greenTimes)
      in case map fst greenTimes of
           [] \<Rightarrow> None
         | k # ks \<Rightarrow>
             let maxLane =
                   foldl (\<lambda>a b. if js_gt (getNum greenTimes a) (getNum greenTimes b) then a else b)
                     k ks
             in Some (AList.update maxLane GREEN signals))"

text \<open>
  A tick. An exception inside the \<open>try\<close> block is caught and logged: the cycle ends
  there, with the changes made so far.
\<close>

definition tick :: "env \<Rightarrow> simulator \<Rightarrow> simulator" where
  "tick e s =
     (if isPaused s \<or> \<not> isRunning s then s
      else
        let realElapsedMs = now e - (case simulationStartTime s of None \<Rightarrow> 0 | Some t \<Rightarrow> t);
            simulationElapsedMs = (realElapsedMs / 1000) * speedMultiplier s;
            s1 = s\<lparr>elapsedTimeSeconds := simulationElapsedMs\<rparr>
        in if simulationDurationSeconds s1 > 0 \<and>
              elapsedTimeSeconds s1 \<ge> simulationDurationSeconds s1
           then stop s1
           else
             let (densities, sensors') = sampleSensors e (sensors s1);
                 s2 = s1\<lparr>sensors := sensors'\<rparr>;
                 (result, controller') = computeGreenTimes (Object densities) (controller s2);
                 s3 = s2\<lparr>controller := controller'\<rparr>
             in case result of
                  Inl err \<Rightarrow> s3
                | Inr greenTimes \<Rightarrow>
                    (case computeSignals greenTimes of
                       None \<Rightarrow> s3
                     | Some signals \<Rightarrow>
                         let state = \<lparr> stCycleCount = cycleCount s3,
                                        stDensities = densities,
                                        stGreenTimes = greenTimes,
                                        stSignals = signals,
                                        stTimestamp = now e,
                                        stLatency = random e * 10,
                                        stMessagesProcessed = cycleCount s3 + 1,
                                        stElapsedTime = elapsedTimeSeconds s3,
                                        stTotalDuration = simulationDurationSeconds s3 \<rparr>
                         in s3\<lparr> dashboard := dashboard s3 @ [state],
                                 cycleCount := cycleCount s3 + 1 \<rparr>))"

definition pause :: "simulator \<Rightarrow> simulator" where
  "pause s =
     (if \<not> isRunning s then s
      else s\<lparr>isPaused := True, pausedAtSeconds := elapsedTimeSeconds s\<rparr>)"

definition resume :: "env \<Rightarrow> simulator \<Rightarrow> simulator" where
  "resume e s =
     (if \<not> isRunning s \<or> \<not> isPaused s then s
      else s\<lparr> isPaused := False,
              simulationStartTime := Some (now e - pausedAtSeconds s * 1000) \<rparr>)"

definition Simulator_reset :: "simulator \<Rightarrow> simulator" where
  "Simulator_reset s =
     s\<lparr> intervalId := None, isPaused := False, isRunning := False, speedMultiplier := 1,
        cycleCount := 0, simulationDurationSeconds := 0, simulationStartTime := None,
        elapsedTimeSeconds := 0, pausedAtSeconds := 0,
        sensors := map (\<lambda>(laneId, sn). (laneId, VirtualSensor_reset sn)) (sensors s),
        dashboard := [] \<rparr>"

definition setSpeed :: "rat \<Rightarrow> simulator \<Rightarrow> (error + unit) \<times> simulator" where
  "setSpeed multiplier s =
     (if multiplier \<le> 0 \<or> multiplier > 10 then (Inl SpeedOutOfRange, s)
      else
        let s1 = s\<lparr>speedMultiplier := multiplier\<rparr>
        in if isRunning s1 \<and> \<not> isPaused s1
           then (Inr (), s1\<lparr>intervalId := Some (tickInterval s1 / speedMultiplier s1)\<rparr>)
           else (Inr (), s1))"

definition step :: "env \<Rightarrow> simulator \<Rightarrow> simulator" where
  "step e s = (if \<not> isPaused s \<or> \<not> isRunning s then s else tick e s)"

definition getRemainingTime :: "simulator \<Rightarrow> rat" where
  "getRemainingTime s =
     (if simulationDurationSeconds s = 0 \<or> \<not> isRunning s then 0
      else max 0 (simulationDurationSeconds s - elapsedTimeSeconds s))"

section \<open>Properties\<close>

subsection \<open>Predicates used to state the properties of the controller\<close>

definition fourLanes :: "string list" where
  "fourLanes = [''north'', ''south'', ''east'', ''west'']"

text \<open>The controller's lane array holds the four lanes, each once, in some order.\<close>

definition lanesOk :: "controller \<Rightarrow> bool" where
  "lanesOk c = (distinct (lanes c) \<and> set (lanes c) = set fourLanes)"

text \<open>The value of a number, read for the statements below (\<open>NaN\<close> reads as \<open>0\<close>).\<close>

fun ratOf :: "number \<Rightarrow> rat" where
  "ratOf (Num a) = a"
| "ratOf NaN = 0"

text \<open>An object whose values are all numbers, and the exact sum of its values.\<close>

definition numeric :: "number object \<Rightarrow> bool" where
  "numeric g = list_all (\<lambda>p. snd p \<noteq> NaN) g"


text \<open>A reading set over the four lanes: one numeric reading for each lane and no other key.\<close>

definition readingSet :: "number object \<Rightarrow> bool" where
  "readingSet d = (distinct (map fst d) \<and> set (map fst d) = set fourLanes \<and> numeric d)"

text \<open>Every value of an allocation is a number in \<open>[minGreen, maxGreen]\<close>.\<close>

definition inBounds :: "controller \<Rightarrow> number object \<Rightarrow> bool" where
  "inBounds c g =
     list_all (\<lambda>p. js_ge (snd p) (Num (minGreen c)) \<and> js_le (snd p) (Num (maxGreen c))) g"




subsection \<open>Concrete inputs\<close>

text \<open>The controller that \<open>new AdaptiveController({})\<close> builds, and a reading set.\<close>

definition defaultController :: controller where
  "defaultController =
     \<lparr> cycleLength = 60, minGreen = 10, maxGreen = 60, yellowTime = 3, allRedTime = 2,
       lanes = [''north'', ''south'', ''east'', ''west''] \<rparr>"

definition readings :: "rat \<Rightarrow> rat \<Rightarrow> rat \<Rightarrow> rat \<Rightarrow> number object" where
  "readings n s e w = [(''north'', Num n), (''south'', Num s), (''east'', Num e), (''west'', Num w)]"

text \<open>The configuration object with no field, which a caller extends.\<close>

definition emptyConfig :: config where
  "emptyConfig =
     \<lparr> cfgCycleLength = None, cfgMinGreen = None, cfgMaxGreen = None, cfgYellowTime = None,
       cfgAllRedTime = None \<rparr>"

text \<open>
  The simulator as Main.js assembles it (sensors with initial densities 40, 35, 45 and 38,
  the default smoothing coefficient, an empty dashboard), and an environment whose clock
  reads \<open>t\<close> and whose normal draw is the same \<open>z\<close> for every sensor.
\<close>

definition mainSensor :: "string \<Rightarrow> rat \<Rightarrow> sensor" where
  "mainSensor laneId d =
     \<lparr> lane = laneId, lastDensity = d, emaCoefficient = 7 / 10, overrideDensity = None,
       smoothedDensity = None \<rparr>"

definition mainSimulator :: simulator where
  "mainSimulator =
     newSimulator
       [(''north'', mainSensor ''north'' 40), (''south'', mainSensor ''south'' 35),
        (''east'', mainSensor ''east'' 45), (''west'', mainSensor ''west'' 38)]
       defaultController []"

definition envAt :: "rat \<Rightarrow> rat \<Rightarrow> env" where
  "envAt t z = \<lparr> now = t, gauss = (\<lambda>laneId. z), random = 0 \<rparr>"

section \<open>Lemmas on rounding\<close>




lemma toDouble_eq_zero_int: "toDouble 0 = 0" by (simp add: toDouble_def)

section \<open>Lemmas on the sort\<close>

text \<open>Whatever the comparator answers, the sort returns a permutation of the array.\<close>

lemma mset_binaryInsertionSort:
  "mset (binaryInsertionSort cmp run rest) = mset run + mset rest"
proof (induction rest arbitrary: run)
  case Nil
  then show ?case by simp
next
  case (Cons pivot rest)
  have "mset (take l run @ pivot # drop l run) = add_mset pivot (mset run)" for l
    by (metis append_take_drop_id mset.simps(2) union_mset_add_mset_right mset_append)
  with Cons show ?case by (simp add: Let_def)
qed

lemma mset_take_drop: "mset (take n xs) + mset (drop n xs) = mset xs"
  by (metis append_take_drop_id mset_append)

lemma mset_countAndMakeRun: "mset (fst (countAndMakeRun cmp xs)) = mset xs"
proof (cases xs)
  case Nil
  then show ?thesis by (simp add: countAndMakeRun_def)
next
  case (Cons a as)
  show ?thesis
  proof (cases as)
    case Nil
    with Cons show ?thesis by (simp add: countAndMakeRun_def)
  next
    case (Cons b bs)
    have "mset (rev (take n xs) @ drop n xs) = mset xs" for n
      by (simp add: mset_take_drop)
    then show ?thesis
      unfolding countAndMakeRun_def \<open>xs = a # as\<close> \<open>as = b # bs\<close>
      by (simp only: list.case Let_def fst_conv split: if_split) simp
  qed
qed

lemma mset_sortBy: "mset (sortBy cmp xs) = mset xs"
proof (cases "length xs < 2")
  case True
  then show ?thesis by (simp add: sortBy_def)
next
  case False
  obtain ys n where r: "countAndMakeRun cmp xs = (ys, n)" by (cases "countAndMakeRun cmp xs")
  have "mset ys = mset xs" using mset_countAndMakeRun [of cmp xs] r by simp
  moreover have "mset (take n ys) + mset (drop n ys) = mset ys"
    by (rule mset_take_drop)
  ultimately show ?thesis using False r by (simp add: sortBy_def mset_binaryInsertionSort)
qed

lemma set_sortBy: "set (sortBy cmp xs) = set xs"
  using mset_sortBy [of cmp xs] by (rule mset_eq_setD)

lemma distinct_sortBy: "distinct (sortBy cmp xs) = distinct xs"
  using mset_sortBy [of cmp xs] by (rule mset_eq_imp_distinct_iff)

lemma length_filter_mset: "mset xs = mset ys \<Longrightarrow> length (filter P xs) = length (filter P ys)"
proof -
  assume "mset xs = mset ys"
  then have "mset (filter P xs) = mset (filter P ys)" by simp
  then show ?thesis by (rule mset_eq_length)
qed

text \<open>
  A comparator that answers \<open>NaN\<close> orders nothing: with the reading of east missing, the
  lanes north, south, east, west with readings \<open>20\<close>, \<open>80\<close>, none and \<open>60\<close> are left in the
  order south, west, north, east.
\<close>

lemma sortBy_missing_reading:
  "sortBy (\<lambda>a b. js_sub (getNum [(''north'', Num 20), (''south'', Num 80), (''west'', Num 60)] b)
                       (getNum [(''north'', Num 20), (''south'', Num 80), (''west'', Num 60)] a))
     [''north'', ''south'', ''east'', ''west'']
   = [''south'', ''west'', ''north'', ''east'']"
  by code_simp

section \<open>Lemmas on objects and the redistribution loop\<close>

lemma update_fresh: "k \<notin> fst ` set al \<Longrightarrow> AList.update k v al = al @ [(k, v)]"
  by (induction al) auto

lemma build_object:
  "distinct ls \<Longrightarrow> set ls \<inter> fst ` set acc = {} \<Longrightarrow>
   foldl (\<lambda>obj l. AList.update l (f l) obj) acc ls = acc @ map (\<lambda>l. (l, f l)) ls"
proof (induction ls arbitrary: acc)
  case Nil
  then show ?case by simp
next
  case (Cons l ls)
  have fresh: "l \<notin> fst ` set acc" using Cons.prems by auto
  have "set ls \<inter> fst ` set (acc @ [(l, f l)]) = {}" using Cons.prems by auto
  with Cons.IH [of "acc @ [(l, f l)]"] Cons.prems fresh show ?case
    by (simp add: update_fresh)
qed

lemma build_object_empty:
  "distinct ls \<Longrightarrow> foldl (\<lambda>obj l. AList.update l (f l) obj) [] ls = map (\<lambda>l. (l, f l)) ls"
  using build_object [of ls "[]" f] by simp

lemma getNum_built: "l \<in> set ls \<Longrightarrow> getNum (map (\<lambda>l. (l, f l)) ls) l = f l"
  by (induction ls) (auto simp: getNum_def)

lemma getNum_numeric:
  "numeric d \<Longrightarrow> l \<in> fst ` set d \<Longrightarrow> getNum d l \<noteq> NaN"
  unfolding numeric_def by (induction d) (auto simp: getNum_def)

lemma foldl_add_numeric:
  "list_all (\<lambda>v. v \<noteq> NaN) vs \<Longrightarrow> \<exists>t. foldl js_add (Num a) vs = Num t"
proof (induction vs arbitrary: a)
  case Nil
  then show ?case by simp
next
  case (Cons v vs)
  then obtain x where "v = Num x" by (cases v) auto
  with Cons show ?case by simp
qed

lemma sumValues_numeric:
  "numeric d \<Longrightarrow> \<exists>t. sumValues d = Num t"
  unfolding sumValues_def numeric_def using foldl_add_numeric [of "map snd d" 0]
  by (simp add: list_all_iff)

lemma clamp_in_bounds:
  "lo \<le> hi \<Longrightarrow> v \<noteq> NaN \<Longrightarrow>
   js_ge (js_max (Num lo) (js_min (Num hi) (js_floor v))) (Num lo) \<and>
   js_le (js_max (Num lo) (js_min (Num hi) (js_floor v))) (Num hi)"
  by (cases v) auto

lemma list_all_update:
  "list_all P g \<Longrightarrow> P (k, v) \<Longrightarrow> list_all P (AList.update k v g)"
  by (induction g) auto

lemma update_keys_present:
  "k \<in> fst ` set g \<Longrightarrow> map fst (AList.update k v g) = map fst g"
  by (induction g) auto

lemma redistributeLoop_inBounds:
  "inBounds c g \<Longrightarrow> inBounds c (redistributeLoop c ls g diff)"
proof (induction ls arbitrary: g diff)
  case Nil
  then show ?case by simp
next
  case (Cons lane rest)
  show ?case
  proof (cases "js_eq diff (Num 0)")
    case True
    with Cons.prems show ?thesis by simp
  next
    case False
    let ?nv = "js_add (getNum g lane) (js_sign diff)"
    show ?thesis
    proof (cases "js_ge ?nv (Num (minGreen c)) \<and> js_le ?nv (Num (maxGreen c))")
      case True
      with Cons.prems have "inBounds c (AList.update lane ?nv g)"
        unfolding inBounds_def by (intro list_all_update) auto
      from Cons.IH [OF this] False True show ?thesis by (simp add: Let_def)
    next
      case no: False
      from Cons.IH [OF Cons.prems] False no show ?thesis by (auto simp add: Let_def)
    qed
  qed
qed

lemma redistributeLoop_keys:
  "set ls \<subseteq> fst ` set g \<Longrightarrow> map fst (redistributeLoop c ls g diff) = map fst g"
proof (induction ls arbitrary: g diff)
  case Nil
  then show ?case by simp
next
  case (Cons lane rest)
  have k: "lane \<in> fst ` set g" using Cons.prems by simp
  have r: "set rest \<subseteq> fst ` set g" using Cons.prems by simp
  have r': "set rest \<subseteq> fst ` set (AList.update lane v g)" for v
    using r by (auto simp: dom_update)
  show ?case
    using Cons.IH [OF r] Cons.IH [OF r'] update_keys_present [OF k]
    by (simp add: Let_def)
qed

lemma validateConfig_iff:
  "validateConfig c = Inr () \<longleftrightarrow>
     minGreen c < maxGreen c \<and>
     toDouble (toDouble (of_nat (length (lanes c)) * toDouble (yellowTime c + allRedTime c))
               + toDouble (of_nat (length (lanes c)) * minGreen c)) \<le> cycleLength c \<and>
     0 < cycleLength c \<and> 0 \<le> minGreen c \<and> 0 \<le> maxGreen c"
  by (auto simp: validateConfig_def Let_def)

lemma validateConfig_order: "validateConfig c = Inr () \<Longrightarrow> minGreen c < maxGreen c"
  by (simp add: validateConfig_iff)

lemma rawGreen_eq:
  "distinct (lanes c) \<Longrightarrow>
   rawGreen c d t =
     map (\<lambda>l. (l, js_mul (js_div (getNum d l) t) (Num (availableTime c)))) (lanes c)"
  unfolding rawGreen_def Let_def by (rule build_object_empty)

lemma constrained_eq:
  "distinct (lanes c) \<Longrightarrow>
   constrained c raw =
     map (\<lambda>l. (l, js_max (Num (minGreen c)) (js_min (Num (maxGreen c)) (js_floor (getNum raw l)))))
       (lanes c)"
  unfolding constrained_def by (rule build_object_empty)

lemma fallback_eq:
  "distinct (lanes c) \<Longrightarrow>
   foldl (\<lambda>obj lane. AList.update lane (Num (minGreen c)) obj) [] (lanes c) =
     map (\<lambda>l. (l, Num (minGreen c))) (lanes c)"
  by (rule build_object_empty)

lemma raw_numeric:
  assumes "lanesOk c" "readingSet d" "t \<noteq> 0" "l \<in> set (lanes c)"
  shows "getNum (rawGreen c d (Num t)) l \<noteq> NaN"
proof -
  have d: "distinct (lanes c)" using assms(1) by (simp add: lanesOk_def)
  have "l \<in> fst ` set d" using assms by (simp add: lanesOk_def readingSet_def)
  then have "getNum d l \<noteq> NaN" using assms(2) getNum_numeric by (simp add: readingSet_def)
  then obtain x where x: "getNum d l = Num x" by (cases "getNum d l") auto
  show ?thesis using assms(3,4) x by (simp add: rawGreen_eq [OF d] getNum_built)
qed

lemma constrained_inBounds:
  assumes "validateConfig c = Inr ()" "lanesOk c" "readingSet d" "t \<noteq> 0"
  shows "inBounds c (constrained c (rawGreen c d (Num t)))"
proof -
  have d: "distinct (lanes c)" using assms(2) by (simp add: lanesOk_def)
  have le: "minGreen c \<le> maxGreen c" using validateConfig_order [OF assms(1)] by simp
  show ?thesis
    unfolding inBounds_def constrained_eq [OF d] list_all_iff
    using clamp_in_bounds [OF le raw_numeric [OF assms(2,3,4)]] by auto
qed

lemma constrained_keys: "distinct (lanes c) \<Longrightarrow> map fst (constrained c raw) = lanes c"
  by (simp add: constrained_eq comp_def)

lemma redistribute_inBounds:
  "inBounds c g \<Longrightarrow> inBounds c (fst (redistribute g t d c))"
  using redistributeLoop_inBounds [of "c\<lparr>lanes := ls\<rparr>" g for ls]
  by (simp add: redistribute_def Let_def inBounds_def)

lemma redistribute_keys:
  "set (lanes c) \<subseteq> fst ` set g \<Longrightarrow> map fst (fst (redistribute g t d c)) = map fst g"
  by (simp add: redistribute_def Let_def redistributeLoop_keys set_sortBy)

lemma inBounds_numeric: "inBounds c g \<Longrightarrow> numeric g"
  unfolding inBounds_def numeric_def list_all_iff by auto

lemma numeric_update: "numeric g \<Longrightarrow> numeric (AList.update k (Num y) g)"
  unfolding numeric_def by (rule list_all_update) auto

lemma getNum_update: "getNum (AList.update k v g) l = (if l = k then v else getNum g l)"
  by (simp add: getNum_def update_conv')

lemma getNum_present:
  "numeric g \<Longrightarrow> k \<in> fst ` set g \<Longrightarrow> \<exists>x. getNum g k = Num x \<and> map_of g k = Some (Num x)"
proof -
  assume n: "numeric g" and k: "k \<in> fst ` set g"
  then obtain v where v: "map_of g k = Some v" by (metis domIff dom_map_of_conv_image_fst not_Some_eq)
  then have "(k, v) \<in> set g" by (rule map_of_SomeD)
  with n have "v \<noteq> NaN" by (auto simp: numeric_def list_all_iff)
  then obtain x where "v = Num x" by (cases v) auto
  with v show ?thesis by (simp add: getNum_def)
qed


lemma distinct_update_keys:
  "distinct (map fst g) \<Longrightarrow> distinct (map fst (AList.update k v g))"
  by (rule distinct_update)

subsection \<open>Constructors, and the lane array of a controller\<close>

text \<open>
  \<open>||\<close> replaces an absent field and a zero alike, by a default that is not zero. The
  constructor sets the four lanes; \<open>updateConfig\<close> leaves the array alone and
  \<open>computeGreenTimes\<close> only permutes it, and changes no other field.
\<close>

lemma orDefault_zero: "orDefault (Some 0) d = orDefault None d"
  by (simp add: orDefault_def)

lemma orDefault_nonzero: "d \<noteq> 0 \<Longrightarrow> orDefault v d \<noteq> 0"
  by (simp add: orDefault_def split: option.splits)

lemma newVirtualSensor_zero_ema:
  "laneId \<in> set fourLanes \<Longrightarrow>
   newVirtualSensor laneId (scfg\<lparr>cfgEmaCoefficient := Some 0\<rparr>)
     = Inr \<lparr> lane = laneId, lastDensity = orDefault (cfgInitialDensity scfg) 50,
             emaCoefficient = 7 / 10, overrideDensity = None, smoothedDensity = None \<rparr>"
  by (simp add: newVirtualSensor_def orDefault_def fourLanes_def)

lemma newVirtualSensor_ema_nonzero:
  "newVirtualSensor laneId scfg = Inr sn \<Longrightarrow> emaCoefficient sn \<noteq> 0"
  by (auto simp: newVirtualSensor_def Let_def orDefault_nonzero split: if_splits)

lemma newAdaptiveController_fields:
  "newAdaptiveController cfg = Inr c \<Longrightarrow>
   cycleLength c = orDefault (cfgCycleLength cfg) 60 \<and> minGreen c = orDefault (cfgMinGreen cfg) 10 \<and>
   maxGreen c = orDefault (cfgMaxGreen cfg) 60 \<and> yellowTime c = orDefault (cfgYellowTime cfg) 3 \<and>
   allRedTime c = orDefault (cfgAllRedTime cfg) 2 \<and> lanes c = fourLanes"
  by (auto simp: newAdaptiveController_def Let_def fourLanes_def split: sum.splits)

lemma newAdaptiveController_nonzero:
  "newAdaptiveController cfg = Inr c \<Longrightarrow>
   cycleLength c \<noteq> 0 \<and> minGreen c \<noteq> 0 \<and> maxGreen c \<noteq> 0 \<and> yellowTime c \<noteq> 0 \<and>
   allRedTime c \<noteq> 0"
  using newAdaptiveController_fields [of cfg c] by (simp add: orDefault_nonzero)

lemma newAdaptiveController_lanesOk: "newAdaptiveController cfg = Inr c \<Longrightarrow> lanesOk c"
  using newAdaptiveController_fields [of cfg c] by (simp add: lanesOk_def fourLanes_def)

lemma updateConfig_lanes: "lanes (snd (updateConfig n c)) = lanes c"
  by (simp add: updateConfig_def Let_def split: option.splits)

lemma computeGreenTimes_lanesOk: "lanesOk c \<Longrightarrow> lanesOk (snd (computeGreenTimes arg c))"
  by (cases arg)
    (auto simp: computeGreenTimes_def redistribute_def Let_def lanesOk_def set_sortBy
      distinct_sortBy split_beta)

lemma computeGreenTimes_config:
  "getConfig (snd (computeGreenTimes arg c)) = getConfig c"
  by (cases arg) (auto simp: computeGreenTimes_def redistribute_def Let_def getConfig_def split_beta)

subsection \<open>The maximum that \<open>reduce\<close> selects\<close>

lemma update_middle:
  "k \<notin> fst ` set xs \<Longrightarrow> AList.update k v (xs @ (k, u) # ys) = xs @ (k, v) # ys"
  by (induction xs) auto

lemma getNum_entry: "distinct (map fst g) \<Longrightarrow> (k, v) \<in> set g \<Longrightarrow> getNum g k = v"
  by (simp add: getNum_def)

lemma reduce_max:
  assumes "distinct (map fst g)"
  shows "g = pre @ (k, Num v) # mid @ rest \<Longrightarrow> numeric g \<Longrightarrow>
         \<forall>p \<in> set pre. ratOf (snd p) \<le> v \<Longrightarrow> \<forall>p \<in> set mid. ratOf (snd p) < v \<Longrightarrow>
         \<exists>xs m w ys. g = xs @ (m, Num w) # ys \<and>
           (\<forall>p \<in> set xs. ratOf (snd p) \<le> w) \<and> (\<forall>p \<in> set ys. ratOf (snd p) < w) \<and>
           foldl (\<lambda>a b. if js_gt (getNum g a) (getNum g b) then a else b) k (map fst rest) = m"
proof (induction rest arbitrary: pre k v mid)
  case Nil
  then show ?case by auto
next
  case (Cons q rest)
  obtain b u where q: "q = (b, u)" by (cases q)
  have "u \<noteq> NaN" using Cons.prems(1,2) q by (auto simp: numeric_def)
  then obtain w where u: "u = Num w" by (cases u) auto
  have gk: "getNum g k = Num v" using Cons.prems(1) by (intro getNum_entry [OF assms]) simp
  have gb: "getNum g b = Num w" using Cons.prems(1) q u by (intro getNum_entry [OF assms]) simp
  show ?case
  proof (cases "v > w")
    case True
    have "g = pre @ (k, Num v) # (mid @ [q]) @ rest" using Cons.prems(1) by simp
    moreover have "\<forall>p \<in> set (mid @ [q]). ratOf (snd p) < v"
      using Cons.prems(4) True q u by auto
    ultimately show ?thesis
      using Cons.IH [of pre k v "mid @ [q]"] Cons.prems(2,3) True gk gb q by simp
  next
    case False
    have "g = (pre @ (k, Num v) # mid) @ (b, Num w) # [] @ rest" using Cons.prems(1) q u by simp
    moreover have "\<forall>p \<in> set (pre @ (k, Num v) # mid). ratOf (snd p) \<le> w"
      using Cons.prems(3,4) False by fastforce
    ultimately show ?thesis
      using Cons.IH [of "pre @ (k, Num v) # mid" b w "[]"] Cons.prems(2) False gk gb q by simp
  qed
qed

lemma signals_all_red:
  "distinct ks \<Longrightarrow> foldl (\<lambda>obj k. AList.update k RED obj) [] ks = map (\<lambda>k. (k, RED)) ks"
  by (rule build_object_empty)

subsection \<open>Whole seconds\<close>
















subsection \<open>An allocation with a \<open>NaN\<close>\<close>

text \<open>
  A \<open>NaN\<close> among the values makes their sum \<open>NaN\<close>, and with it \<open>diff\<close>: no comparison
  of the redistribution loop succeeds and the allocation is returned as it is.
\<close>

lemma foldl_add_NaN: "foldl js_add NaN vs = NaN"
  by (induction vs) auto

lemma foldl_add_has_NaN: "NaN \<in> set vs \<Longrightarrow> foldl js_add a vs = NaN"
proof (induction vs arbitrary: a)
  case Nil
  then show ?case by simp
next
  case (Cons v vs)
  show ?case
  proof (cases "v = NaN")
    case True
    then have "js_add a v = NaN" by (cases a) auto
    then show ?thesis by (simp add: foldl_add_NaN)
  next
    case False
    with Cons show ?thesis by simp
  qed
qed

lemma redistributeLoop_NaN: "redistributeLoop c ls g NaN = g"
proof (induction ls)
  case Nil
  then show ?case by simp
next
  case (Cons lane rest)
  have "js_add (getNum g lane) NaN = NaN" by (cases "getNum g lane") auto
  with Cons show ?case by (simp add: Let_def)
qed

lemma redistribute_has_NaN:
  assumes "NaN \<in> snd ` set g"
  shows "fst (redistribute g (Num t) d c) = g"
proof -
  have "sumValues g = NaN" unfolding sumValues_def using assms by (intro foldl_add_has_NaN) simp
  then show ?thesis by (simp add: redistribute_def Let_def redistributeLoop_NaN)
qed

section \<open>The allocation: bounds and sum\<close>

text \<open>
  C2. For a controller whose configuration passes \<open>_validateConfig\<close> and a reading set over
  the four lanes, \<open>computeGreenTimes\<close> returns an allocation with one entry per lane, in the
  order of the controller's lane array, and every value is a number in
  \<open>[minGreen, maxGreen]\<close>: after the clamping step (when the total is not zero and the step
  runs), after redistribution, and in the zero-total fallback.
\<close>

theorem computeGreenTimes_within_bounds:
  assumes "validateConfig c = Inr ()" and "lanesOk c" and "readingSet d"
  shows "(\<not> js_eq (sumValues d) (Num 0) \<longrightarrow>
            inBounds c (constrained c (rawGreen c d (sumValues d)))) \<and>
         (\<exists>g c'. computeGreenTimes (Object d) c = (Inr g, c') \<and>
                  map fst g = lanes c \<and> inBounds c g)"
proof -
  have dl: "distinct (lanes c)" using assms(2) by (simp add: lanesOk_def)
  have le: "minGreen c \<le> maxGreen c" using validateConfig_order [OF assms(1)] by simp
  have "numeric d" using assms(3) by (simp add: readingSet_def)
  from sumValues_numeric [OF this] obtain t where t: "sumValues d = Num t" by blast
  show ?thesis
  proof (cases "t = 0")
    case True
    have "inBounds c (map (\<lambda>l. (l, Num (minGreen c))) (lanes c))"
      using le by (simp add: inBounds_def list_all_iff)
    with True t dl show ?thesis
      by (simp add: computeGreenTimes_def fallback_eq comp_def)
  next
    case False
    let ?g0 = "constrained c (rawGreen c d (Num t))"
    have b0: "inBounds c ?g0" using constrained_inBounds [OF assms False] .
    have k0: "map fst ?g0 = lanes c" using constrained_keys [OF dl] .
    have sub: "set (lanes c) \<subseteq> fst ` set ?g0" using k0 by (metis set_map subset_refl)
    obtain g c' where r: "redistribute ?g0 (Num (availableTime c)) d c = (g, c')"
      by (cases "redistribute ?g0 (Num (availableTime c)) d c")
    have "inBounds c g" using redistribute_inBounds [OF b0, of "Num (availableTime c)" d] r by simp
    moreover have "map fst g = lanes c"
      using redistribute_keys [OF sub, of "Num (availableTime c)" d] r k0 by simp
    ultimately show ?thesis using False t r b0 by (simp add: computeGreenTimes_def)
  qed
qed

theorem computeGreenTimes_within_bounds_witness:
  "validateConfig defaultController = Inr () \<and> lanesOk defaultController \<and>
   readingSet (readings 80 20 60 40) \<and>
   constrained defaultController
     (rawGreen defaultController (readings 80 20 60 40) (sumValues (readings 80 20 60 40)))
     = readings 16 10 12 10 \<and>
   inBounds defaultController (readings 16 10 12 10) \<and>
   fst (computeGreenTimes (Object (readings 80 20 60 40)) defaultController)
     = Inr (readings 15 10 11 10) \<and>
   inBounds defaultController (readings 15 10 11 10)"
proof -
  have h1: "validateConfig defaultController = Inr ()" by code_simp
  have h2: "lanesOk defaultController" by code_simp
  have h3: "readingSet (readings 80 20 60 40)" by code_simp
  have h4: "\<not> js_eq (sumValues (readings 80 20 60 40)) (Num 0)" by code_simp
  have e1: "constrained defaultController
      (rawGreen defaultController (readings 80 20 60 40) (sumValues (readings 80 20 60 40)))
      = readings 16 10 12 10"
    by code_simp
  have e2: "fst (computeGreenTimes (Object (readings 80 20 60 40)) defaultController)
      = Inr (readings 15 10 11 10)"
    by code_simp
  from computeGreenTimes_within_bounds [OF h1 h2 h3] h4 e1 e2
  have "inBounds defaultController (readings 16 10 12 10)"
    and "inBounds defaultController (readings 15 10 11 10)"
    by auto
  with h1 h2 h3 e1 e2 show ?thesis by blast
qed




text \<open>
  The example of the source's own documentation, on the default configuration: the clamped
  values \<open>16, 10, 12, 10\<close> sum to \<open>48\<close>, the single pass of \<open>_redistribute\<close> takes one
  second from north and east, and the result sums to \<open>46\<close> where \<open>availableTime\<close> is \<open>40\<close>.
\<close>

lemma documented_example:
  "fst (computeGreenTimes (Object (readings 80 20 60 40)) defaultController)
     = Inr (readings 15 10 11 10) \<and>
   sumValues (readings 15 10 11 10) = Num 46 \<and> availableTime defaultController = 40"
  by code_simp

text \<open>
  Rounding is visible on whole inputs: \<open>29 / 100 * 100\<close> is the double just below \<open>29\<close>,
  whose floor is \<open>28\<close>. With \<open>cycleLength = 120\<close> and \<open>minGreen = 1\<close> the readings
  \<open>1, 29, 63, 7\<close> get the clamped values \<open>1, 28, 63, 7\<close>, and the result sums to \<open>99\<close>
  where \<open>availableTime\<close> is \<open>100\<close>.
\<close>

lemma rounded_floor_example:
  "validateConfig (defaultController\<lparr>cycleLength := 120, minGreen := 1\<rparr>) = Inr () \<and>
   js_mul (js_div (Num 29) (Num 100)) (Num 100) = Num (8162774324609023 / 281474976710656) \<and>
   js_floor (js_mul (js_div (Num 29) (Num 100)) (Num 100)) = Num 28 \<and>
   fst (computeGreenTimes (Object (readings 1 29 63 7))
          (defaultController\<lparr>cycleLength := 120, minGreen := 1\<rparr>))
     = Inr (readings 2 29 60 8) \<and>
   sumValues (readings 2 29 60 8) = Num 99 \<and>
   availableTime (defaultController\<lparr>cycleLength := 120, minGreen := 1\<rparr>) = 100"
  by code_simp

text \<open>
  A configuration that is not in whole seconds: \<open>availableTime\<close> is \<open>40.5\<close>, the
  clamped values are whole, and the sum steps from \<open>40\<close> to \<open>41\<close>, past \<open>availableTime\<close>.
\<close>

lemma fractional_example:
  "validateConfig (defaultController\<lparr>cycleLength := 121 / 2\<rparr>) = Inr () \<and>
   availableTime (defaultController\<lparr>cycleLength := 121 / 2\<rparr>) = 81 / 2 \<and>
   fst (computeGreenTimes (Object (readings 25 25 25 25))
          (defaultController\<lparr>cycleLength := 121 / 2\<rparr>))
     = Inr (readings 11 10 10 10) \<and>
   sumValues (readings 11 10 10 10) = Num 41"
  by code_simp

section \<open>The allocation: failures and state\<close>

text \<open>
  C7, as stated, fails: a reading set with a fifth key, and one without the west lane, are
  both answered with an allocation (the second with \<open>NaN\<close> for the missing lane).
\<close>

theorem computeGreenTimes_key_mismatch_counterexample:
  "\<not> readingSet (readings 80 20 60 40 @ [(''center'', Num 0)]) \<and>
   fst (computeGreenTimes (Object (readings 80 20 60 40 @ [(''center'', Num 0)])) defaultController)
     = Inr (readings 15 10 11 10) \<and>
   \<not> readingSet [(''north'', Num 80), (''south'', Num 20), (''east'', Num 60)] \<and>
   fst (computeGreenTimes (Object [(''north'', Num 80), (''south'', Num 20), (''east'', Num 60)])
          defaultController)
     = Inr [(''north'', Num 20), (''south'', Num 10), (''east'', Num 15), (''west'', NaN)]"
  by code_simp

text \<open>
  C7, as amended. \<open>computeGreenTimes\<close> fails exactly on an argument that is falsy or
  not an object, and then leaves the controller as it was. On every object, whatever its
  keys and whether its readings are numbers or \<open>NaN\<close>, it returns an allocation with one
  entry for each lane of the controller: \<open>minGreen\<close> for every lane when the values of the
  object sum to zero (so for the empty object), and otherwise \<open>NaN\<close> for every lane whose
  reading is absent or \<open>NaN\<close>.
\<close>

theorem computeGreenTimes_fails_only_on_non_object:
  assumes "lanesOk c"
  shows "(fst (computeGreenTimes arg c) = Inl DensitiesMustBeObject)
           = (falsy arg \<or> typeof arg \<noteq> ''object'') \<and>
         (falsy arg \<or> typeof arg \<noteq> ''object''
            \<longrightarrow> computeGreenTimes arg c = (Inl DensitiesMustBeObject, c)) \<and>
         (\<exists>g c'. computeGreenTimes (Object d) c = (Inr g, c') \<and> map fst g = lanes c \<and>
            (js_eq (sumValues d) (Num 0)
               \<longrightarrow> (\<forall>l \<in> set (lanes c). getNum g l = Num (minGreen c))) \<and>
            (\<not> js_eq (sumValues d) (Num 0)
               \<longrightarrow> (\<forall>l \<in> set (lanes c). getNum d l = NaN \<longrightarrow> getNum g l = NaN)))"
proof -
  have dl: "distinct (lanes c)" using assms by (simp add: lanesOk_def)
  have obj: "\<exists>g c'. computeGreenTimes (Object d') c = (Inr g, c') \<and> map fst g = lanes c \<and>
            (js_eq (sumValues d') (Num 0)
               \<longrightarrow> (\<forall>l \<in> set (lanes c). getNum g l = Num (minGreen c))) \<and>
            (\<not> js_eq (sumValues d') (Num 0)
               \<longrightarrow> (\<forall>l \<in> set (lanes c). getNum d' l = NaN \<longrightarrow> getNum g l = NaN))" for d'
  proof (cases "js_eq (sumValues d') (Num 0)")
    case True
    then show ?thesis
      using dl by (simp add: computeGreenTimes_def fallback_eq comp_def getNum_built)
  next
    case False
    let ?raw = "rawGreen c d' (sumValues d')"
    let ?clamped = "constrained c ?raw"
    let ?res = "fst (redistribute ?clamped (Num (availableTime c)) d' c)"
    have k0: "map fst ?clamped = lanes c" by (rule constrained_keys [OF dl])
    have sub: "set (lanes c) \<subseteq> fst ` set ?clamped" using k0 by (metis set_map subset_refl)
    have keys: "map fst ?res = lanes c" using redistribute_keys [OF sub] k0 by simp
    have nan: "getNum ?res l = NaN" if l: "l \<in> set (lanes c)" and r: "getNum d' l = NaN" for l
    proof -
      have "getNum ?raw l = NaN" using l r by (simp add: rawGreen_eq [OF dl] getNum_built)
      then have cl: "getNum ?clamped l = NaN" using l by (simp add: constrained_eq [OF dl] getNum_built)
      have "(l, getNum ?clamped l) \<in> set ?clamped"
        using l by (auto simp: constrained_eq [OF dl] getNum_built)
      then have "NaN \<in> snd ` set ?clamped" using cl by force
      then have "?res = ?clamped" by (rule redistribute_has_NaN)
      with cl show ?thesis by simp
    qed
    show ?thesis using False keys nan by (simp add: computeGreenTimes_def Let_def split_beta)
  qed
  have guard: "falsy arg \<or> typeof arg \<noteq> ''object''
                 \<longrightarrow> computeGreenTimes arg c = (Inl DensitiesMustBeObject, c)"
    by (simp add: computeGreenTimes_def)
  have "(fst (computeGreenTimes arg c) = Inl DensitiesMustBeObject)
          = (falsy arg \<or> typeof arg \<noteq> ''object'')"
  proof (cases "falsy arg \<or> typeof arg \<noteq> ''object''")
    case True
    with guard show ?thesis by simp
  next
    case False
    then obtain d' where "arg = Object d'" by (cases arg) auto
    with obj [of d'] False show ?thesis by auto
  qed
  with guard obj [of d] show ?thesis by blast
qed

theorem computeGreenTimes_fails_only_on_non_object_witness:
  "lanesOk defaultController \<and>
   falsy Null \<and> typeof Null = ''object'' \<and>
   computeGreenTimes Null defaultController = (Inl DensitiesMustBeObject, defaultController) \<and>
   \<not> falsy (String ''north'') \<and> typeof (String ''north'') \<noteq> ''object'' \<and>
   computeGreenTimes (String ''north'') defaultController
     = (Inl DensitiesMustBeObject, defaultController) \<and>
   js_eq (sumValues []) (Num 0) \<and>
   fst (computeGreenTimes (Object []) defaultController) = Inr (readings 10 10 10 10) \<and>
   \<not> js_eq (sumValues [(''north'', Num 80), (''south'', Num 20), (''east'', Num 60)]) (Num 0) \<and>
   ''west'' \<in> set (lanes defaultController) \<and>
   getNum [(''north'', Num 80), (''south'', Num 20), (''east'', Num 60)] ''west'' = NaN \<and>
   getNum (case fst (computeGreenTimes
                      (Object [(''north'', Num 80), (''south'', Num 20), (''east'', Num 60)])
                      defaultController) of Inr g \<Rightarrow> g | Inl e \<Rightarrow> [])
     ''west'' = NaN"
proof -
  let ?d = "[(''north'', Num 80), (''south'', Num 20), (''east'', Num 60)]"
  have h: "lanesOk defaultController" by code_simp
  have ev: "falsy Null" "typeof Null = ''object''" "\<not> falsy (String ''north'')"
    "typeof (String ''north'') \<noteq> ''object''" "js_eq (sumValues []) (Num 0)"
    "fst (computeGreenTimes (Object []) defaultController) = Inr (readings 10 10 10 10)"
    "\<not> js_eq (sumValues ?d) (Num 0)" "''west'' \<in> set (lanes defaultController)"
    "getNum ?d ''west'' = NaN"
    by code_simp+
  from computeGreenTimes_fails_only_on_non_object [OF h, of Null ?d] ev(7,8,9)
  obtain g c' where g: "computeGreenTimes (Object ?d) defaultController = (Inr g, c')"
    "getNum g ''west'' = NaN" by blast
  have west: "getNum (case fst (computeGreenTimes (Object ?d) defaultController) of
                        Inr g \<Rightarrow> g | Inl e \<Rightarrow> []) ''west'' = NaN"
    using g by simp
  show ?thesis
    using computeGreenTimes_fails_only_on_non_object [OF h, of Null]
      computeGreenTimes_fails_only_on_non_object [OF h, of "String ''north''"] h ev west
    by blast
qed

text \<open>
  C9. The claim is that a call's result depends on its readings and the configuration
  only, and that the lane order is fixed. The code sorts \<open>this.lanes\<close> in place. On the
  controller \<open>new AdaptiveController({cycleLength: 61})\<close>, four equal readings give the
  spare second to north; after one call with readings 10, 20, 30, 40 the lane array is
  west, east, south, north, and the same four equal readings give the spare second to
  west, in an allocation whose keys are in the new order.
\<close>

theorem computeGreenTimes_depends_on_earlier_calls:
  "newAdaptiveController (emptyConfig\<lparr>cfgCycleLength := Some 61\<rparr>)
     = Inr (defaultController\<lparr>cycleLength := 61\<rparr>) \<and>
   computeGreenTimes (Object (readings 25 25 25 25)) (defaultController\<lparr>cycleLength := 61\<rparr>)
     = (Inr [(''north'', Num 11), (''south'', Num 10), (''east'', Num 10), (''west'', Num 10)],
        defaultController\<lparr>cycleLength := 61\<rparr>) \<and>
   computeGreenTimes (Object (readings 10 20 30 40)) (defaultController\<lparr>cycleLength := 61\<rparr>)
     = (Inr [(''north'', Num 10), (''south'', Num 10), (''east'', Num 11), (''west'', Num 15)],
        defaultController\<lparr>cycleLength := 61, lanes := [''west'', ''east'', ''south'', ''north'']\<rparr>) \<and>
   computeGreenTimes (Object (readings 25 25 25 25))
       (snd (computeGreenTimes (Object (readings 10 20 30 40))
               (defaultController\<lparr>cycleLength := 61\<rparr>)))
     = (Inr [(''west'', Num 11), (''east'', Num 10), (''south'', Num 10), (''north'', Num 10)],
        defaultController\<lparr>cycleLength := 61, lanes := [''west'', ''east'', ''south'', ''north'']\<rparr>)"
  by code_simp

text \<open>
  On the default configuration the values of an allocation do not depend on the lane
  order, but its key order does, and with it the lane that \<open>_computeSignals\<close> marks green
  among equal allocations.
\<close>

lemma lane_order_changes_signals:
  "computeGreenTimes (Object (readings 0 0 0 0)) defaultController
     = (Inr (readings 10 10 10 10), defaultController) \<and>
   computeSignals (readings 10 10 10 10)
     = Some [(''north'', RED), (''south'', RED), (''east'', RED), (''west'', GREEN)] \<and>
   snd (computeGreenTimes (Object (readings 80 20 60 40)) defaultController)
     = defaultController\<lparr>lanes := [''north'', ''east'', ''west'', ''south'']\<rparr> \<and>
   fst (computeGreenTimes (Object (readings 0 0 0 0))
          (snd (computeGreenTimes (Object (readings 80 20 60 40)) defaultController)))
     = Inr [(''north'', Num 10), (''east'', Num 10), (''west'', Num 10), (''south'', Num 10)] \<and>
   computeSignals [(''north'', Num 10), (''east'', Num 10), (''west'', Num 10), (''south'', Num 10)]
     = Some [(''north'', RED), (''east'', RED), (''west'', RED), (''south'', GREEN)]"
  by code_simp

section \<open>Configuration\<close>

text \<open>
  C3. The claim is that a failed update leaves the prior configuration in effect. In the
  code the controller left by \<open>updateConfig\<close> always carries every supplied field, and the
  outcome of the call is the validation of that controller: nothing is restored when the
  validation throws.
\<close>

theorem updateConfig_commits_before_validating:
  "snd (updateConfig n c)
     = c\<lparr> cycleLength := (case cfgCycleLength n of None \<Rightarrow> cycleLength c | Some v \<Rightarrow> v),
          minGreen := (case cfgMinGreen n of None \<Rightarrow> minGreen c | Some v \<Rightarrow> v),
          maxGreen := (case cfgMaxGreen n of None \<Rightarrow> maxGreen c | Some v \<Rightarrow> v),
          yellowTime := (case cfgYellowTime n of None \<Rightarrow> yellowTime c | Some v \<Rightarrow> v),
          allRedTime := (case cfgAllRedTime n of None \<Rightarrow> allRedTime c | Some v \<Rightarrow> v) \<rparr> \<and>
   fst (updateConfig n c) = validateConfig (snd (updateConfig n c))"
  by (simp add: updateConfig_def Let_def split: option.splits)

text \<open>
  At the default configuration the update \<open>{minGreen: 70}\<close> throws and leaves
  \<open>minGreen = 70\<close> above \<open>maxGreen = 60\<close>; the next allocation gives every lane 70 seconds.
\<close>

theorem updateConfig_commits_before_validating_witness:
  "validateConfig defaultController = Inr () \<and>
   updateConfig (emptyConfig\<lparr>cfgMinGreen := Some 70\<rparr>) defaultController
     = (Inl MinGreenNotLessThanMaxGreen, defaultController\<lparr>minGreen := 70\<rparr>) \<and>
   minGreen defaultController = 10 \<and>
   fst (computeGreenTimes (Object (readings 80 20 60 40))
          (snd (updateConfig (emptyConfig\<lparr>cfgMinGreen := Some 70\<rparr>) defaultController)))
     = Inr (readings 70 70 70 70)"
proof -
  have ev: "validateConfig defaultController = Inr () \<and>
     validateConfig (defaultController\<lparr>minGreen := 70\<rparr>) = Inl MinGreenNotLessThanMaxGreen \<and>
     minGreen defaultController = 10 \<and>
     fst (computeGreenTimes (Object (readings 80 20 60 40)) (defaultController\<lparr>minGreen := 70\<rparr>))
       = Inr (readings 70 70 70 70)"
    by code_simp
  have st: "snd (updateConfig (emptyConfig\<lparr>cfgMinGreen := Some 70\<rparr>) defaultController)
            = defaultController\<lparr>minGreen := 70\<rparr>"
    using updateConfig_commits_before_validating
      [of "emptyConfig\<lparr>cfgMinGreen := Some 70\<rparr>" defaultController]
    by (simp add: emptyConfig_def)
  have out: "fst (updateConfig (emptyConfig\<lparr>cfgMinGreen := Some 70\<rparr>) defaultController)
            = Inl MinGreenNotLessThanMaxGreen"
    using updateConfig_commits_before_validating
      [of "emptyConfig\<lparr>cfgMinGreen := Some 70\<rparr>" defaultController] st ev
    by simp
  show ?thesis using ev st out by (simp add: prod_eq_iff)
qed

text \<open>
  C10. Both constructors read their configuration with \<open>||\<close>, so a field passed as \<open>0\<close> is
  treated as absent: a sensor built with \<open>emaCoefficient: 0\<close> on a valid lane is built, with
  coefficient \<open>0.7\<close>; for each of the five fields of the controller, passing \<open>0\<close> gives
  what omitting the field gives, a controller with the default (60, 10, 60, 3 or 2) in that
  field, set before \<open>_validateConfig\<close> runs; and no sensor or controller that a constructor
  returns has \<open>0\<close> in one of these fields.
\<close>

theorem constructors_treat_zero_as_absent:
  "(laneId \<in> set fourLanes \<longrightarrow>
      (\<exists>sn. newVirtualSensor laneId (scfg\<lparr>cfgEmaCoefficient := Some 0\<rparr>) = Inr sn \<and>
            emaCoefficient sn = 7 / 10)) \<and>
   newVirtualSensor laneId (scfg\<lparr>cfgEmaCoefficient := Some 0\<rparr>)
     = newVirtualSensor laneId (scfg\<lparr>cfgEmaCoefficient := None\<rparr>) \<and>
   newAdaptiveController (cfg\<lparr>cfgCycleLength := Some 0\<rparr>)
     = newAdaptiveController (cfg\<lparr>cfgCycleLength := None\<rparr>) \<and>
   newAdaptiveController (cfg\<lparr>cfgMinGreen := Some 0\<rparr>)
     = newAdaptiveController (cfg\<lparr>cfgMinGreen := None\<rparr>) \<and>
   newAdaptiveController (cfg\<lparr>cfgMaxGreen := Some 0\<rparr>)
     = newAdaptiveController (cfg\<lparr>cfgMaxGreen := None\<rparr>) \<and>
   newAdaptiveController (cfg\<lparr>cfgYellowTime := Some 0\<rparr>)
     = newAdaptiveController (cfg\<lparr>cfgYellowTime := None\<rparr>) \<and>
   newAdaptiveController (cfg\<lparr>cfgAllRedTime := Some 0\<rparr>)
     = newAdaptiveController (cfg\<lparr>cfgAllRedTime := None\<rparr>) \<and>
   (\<forall>c. newAdaptiveController (cfg\<lparr>cfgCycleLength := Some 0\<rparr>) = Inr c
          \<longrightarrow> cycleLength c = 60) \<and>
   (\<forall>c. newAdaptiveController (cfg\<lparr>cfgMinGreen := Some 0\<rparr>) = Inr c \<longrightarrow> minGreen c = 10) \<and>
   (\<forall>c. newAdaptiveController (cfg\<lparr>cfgMaxGreen := Some 0\<rparr>) = Inr c \<longrightarrow> maxGreen c = 60) \<and>
   (\<forall>c. newAdaptiveController (cfg\<lparr>cfgYellowTime := Some 0\<rparr>) = Inr c
          \<longrightarrow> yellowTime c = 3) \<and>
   (\<forall>c. newAdaptiveController (cfg\<lparr>cfgAllRedTime := Some 0\<rparr>) = Inr c
          \<longrightarrow> allRedTime c = 2) \<and>
   (\<forall>sn. newVirtualSensor laneId scfg = Inr sn \<longrightarrow> emaCoefficient sn \<noteq> 0) \<and>
   (\<forall>c. newAdaptiveController cfg = Inr c \<longrightarrow>
      cycleLength c \<noteq> 0 \<and> minGreen c \<noteq> 0 \<and> maxGreen c \<noteq> 0 \<and> yellowTime c \<noteq> 0 \<and>
      allRedTime c \<noteq> 0)"
proof -
  have dflt:
    "\<forall>c. newAdaptiveController (cfg\<lparr>cfgCycleLength := Some 0\<rparr>) = Inr c
          \<longrightarrow> cycleLength c = 60"
    "\<forall>c. newAdaptiveController (cfg\<lparr>cfgMinGreen := Some 0\<rparr>) = Inr c \<longrightarrow> minGreen c = 10"
    "\<forall>c. newAdaptiveController (cfg\<lparr>cfgMaxGreen := Some 0\<rparr>) = Inr c \<longrightarrow> maxGreen c = 60"
    "\<forall>c. newAdaptiveController (cfg\<lparr>cfgYellowTime := Some 0\<rparr>) = Inr c
          \<longrightarrow> yellowTime c = 3"
    "\<forall>c. newAdaptiveController (cfg\<lparr>cfgAllRedTime := Some 0\<rparr>) = Inr c
          \<longrightarrow> allRedTime c = 2"
    using newAdaptiveController_fields by (auto simp: orDefault_def)
  have sensor: "laneId \<in> set fourLanes \<longrightarrow>
      (\<exists>sn. newVirtualSensor laneId (scfg\<lparr>cfgEmaCoefficient := Some 0\<rparr>) = Inr sn \<and>
            emaCoefficient sn = 7 / 10)"
    by (simp add: newVirtualSensor_zero_ema)
  have same: "newVirtualSensor laneId (scfg\<lparr>cfgEmaCoefficient := Some 0\<rparr>)
     = newVirtualSensor laneId (scfg\<lparr>cfgEmaCoefficient := None\<rparr>)"
    by (simp add: newVirtualSensor_def orDefault_zero)
  have ctl: "newAdaptiveController (cfg\<lparr>cfgCycleLength := Some 0\<rparr>)
       = newAdaptiveController (cfg\<lparr>cfgCycleLength := None\<rparr>)"
    "newAdaptiveController (cfg\<lparr>cfgMinGreen := Some 0\<rparr>)
       = newAdaptiveController (cfg\<lparr>cfgMinGreen := None\<rparr>)"
    "newAdaptiveController (cfg\<lparr>cfgMaxGreen := Some 0\<rparr>)
       = newAdaptiveController (cfg\<lparr>cfgMaxGreen := None\<rparr>)"
    "newAdaptiveController (cfg\<lparr>cfgYellowTime := Some 0\<rparr>)
       = newAdaptiveController (cfg\<lparr>cfgYellowTime := None\<rparr>)"
    "newAdaptiveController (cfg\<lparr>cfgAllRedTime := Some 0\<rparr>)
       = newAdaptiveController (cfg\<lparr>cfgAllRedTime := None\<rparr>)"
    by (simp_all add: newAdaptiveController_def orDefault_zero)
  show ?thesis
    using sensor same ctl dflt newVirtualSensor_ema_nonzero [of laneId scfg]
      newAdaptiveController_nonzero [of cfg] by blast
qed

theorem constructors_treat_zero_as_absent_witness:
  "''north'' \<in> set fourLanes \<and>
   newVirtualSensor ''north'' \<lparr>cfgInitialDensity = Some 40, cfgEmaCoefficient = Some 0\<rparr>
     = Inr (mainSensor ''north'' 40) \<and>
   emaCoefficient (mainSensor ''north'' 40) = 7 / 10 \<and>
   newAdaptiveController (emptyConfig\<lparr>cfgYellowTime := Some 0\<rparr>) = Inr defaultController \<and>
   yellowTime defaultController = 3"
proof -
  have ev: "''north'' \<in> set fourLanes \<and>
     newVirtualSensor ''north'' \<lparr>cfgInitialDensity = Some 40, cfgEmaCoefficient = Some 0\<rparr>
       = Inr (mainSensor ''north'' 40) \<and>
     emaCoefficient (mainSensor ''north'' 40) = 7 / 10 \<and>
     newAdaptiveController (emptyConfig\<lparr>cfgYellowTime := None\<rparr>) = Inr defaultController \<and>
     yellowTime defaultController = 3"
    by code_simp
  show ?thesis
    using ev constructors_treat_zero_as_absent
      [of "''north''" "\<lparr>cfgInitialDensity = Some 40, cfgEmaCoefficient = Some 0\<rparr>" emptyConfig]
    by simp
qed

section \<open>The simulator\<close>

text \<open>
  C6, as amended. For an allocation with at least one lane, distinct keys and numeric
  values, \<open>_computeSignals\<close> marks exactly one lane \<open>GREEN\<close> and every other lane \<open>RED\<close>,
  in the allocation's key order. The green lane has the largest allocation: no lane before
  it has more, and every lane after it has strictly less, so among equal maxima the green
  lane is the last of them in the key order of the allocation object.
\<close>

theorem computeSignals_one_green:
  assumes "distinct (map fst g)" and "numeric g" and "g \<noteq> []"
  shows "\<exists>xs m w ys. g = xs @ (m, Num w) # ys \<and>
           (\<forall>p \<in> set xs. ratOf (snd p) \<le> w) \<and> (\<forall>p \<in> set ys. ratOf (snd p) < w) \<and>
           computeSignals g
             = Some (map (\<lambda>p. (fst p, RED)) xs @ (m, GREEN) # map (\<lambda>p. (fst p, RED)) ys)"
proof -
  obtain k u rest where g: "g = (k, u) # rest" using assms(3) by (cases g) auto
  have "u \<noteq> NaN" using assms(2) g by (auto simp: numeric_def)
  then obtain v where u: "u = Num v" by (cases u) auto
  have "g = [] @ (k, Num v) # [] @ rest" using g u by simp
  from reduce_max [OF assms(1) this assms(2)]
  obtain xs m w ys where d: "g = xs @ (m, Num w) # ys"
      and le: "\<forall>p \<in> set xs. ratOf (snd p) \<le> w" and lt: "\<forall>p \<in> set ys. ratOf (snd p) < w"
      and m: "foldl (\<lambda>a b. if js_gt (getNum g a) (getNum g b) then a else b) k (map fst rest) = m"
    by auto
  have red: "foldl (\<lambda>obj k. AList.update k RED obj) [] (map fst g) = map (\<lambda>k. (k, RED)) (map fst g)"
    by (rule signals_all_red [OF assms(1)])
  have fresh: "m \<notin> fst ` set (map (\<lambda>p. (fst p, RED)) xs)" using assms(1) d by force
  have keys: "map fst g = k # map fst rest" using g by simp
  have "computeSignals g = Some (AList.update m GREEN (map (\<lambda>k. (k, RED)) (map fst g)))"
    unfolding computeSignals_def red Let_def by (subst (2) keys) (simp add: m)
  also have "map (\<lambda>k. (k, RED)) (map fst g)
             = map (\<lambda>p. (fst p, RED)) xs @ (m, RED) # map (\<lambda>p. (fst p, RED)) ys"
    using d by (simp add: comp_def)
  finally show ?thesis using d le lt update_middle [OF fresh] by auto
qed

theorem computeSignals_one_green_witness:
  "distinct (map fst (readings 12 10 12 10)) \<and> numeric (readings 12 10 12 10) \<and>
   readings 12 10 12 10 \<noteq> [] \<and>
   computeSignals (readings 12 10 12 10)
     = Some [(''north'', RED), (''south'', RED), (''east'', GREEN), (''west'', RED)]"
proof -
  have h1: "distinct (map fst (readings 12 10 12 10))" by code_simp
  have h2: "numeric (readings 12 10 12 10)" by code_simp
  have h3: "readings 12 10 12 10 \<noteq> []" by code_simp
  have ev: "computeSignals (readings 12 10 12 10)
     = Some [(''north'', RED), (''south'', RED), (''east'', GREEN), (''west'', RED)]"
    by code_simp
  show ?thesis using computeSignals_one_green [OF h1 h2 h3] h1 h2 h3 ev by blast
qed

text \<open>
  C6, as stated, fails on ties. North and east share the maximum \<open>12\<close>: east is green and
  north, the first lane of the enumeration, is red. And the key order of the allocation
  decides, not an order of the lanes: the allocation that gives every lane \<open>10\<close> marks west
  with the keys north, south, east, west and north with the keys west, east, south, north.
\<close>

theorem computeSignals_tie_counterexample:
  "computeSignals (readings 12 10 12 10)
     = Some [(''north'', RED), (''south'', RED), (''east'', GREEN), (''west'', RED)] \<and>
   computeSignals [(''north'', Num 10), (''south'', Num 10), (''east'', Num 10), (''west'', Num 10)]
     = Some [(''north'', RED), (''south'', RED), (''east'', RED), (''west'', GREEN)] \<and>
   computeSignals [(''west'', Num 10), (''east'', Num 10), (''south'', Num 10), (''north'', Num 10)]
     = Some [(''west'', RED), (''east'', RED), (''south'', RED), (''north'', GREEN)]"
  by code_simp

text \<open>
  C4. The claim is that \<open>step()\<close> runs one cycle when the scheduler is paused. \<open>step\<close>
  calls \<open>tick\<close> only when paused and running, and \<open>tick\<close> returns at once when paused: in
  every state \<open>step\<close> changes nothing.
\<close>

theorem step_performs_no_cycle: "step e s = s"
  by (simp add: step_def tick_def)

text \<open>
  After \<open>start\<close>, one tick and \<open>pause\<close>, the simulator is running and paused with one cycle
  done and one record on the dashboard; \<open>step()\<close> leaves both at one.
\<close>

theorem step_performs_no_cycle_witness:
  "isRunning (pause (tick (envAt 2000 0) (start 0 (envAt 0 0) mainSimulator))) \<and>
   isPaused (pause (tick (envAt 2000 0) (start 0 (envAt 0 0) mainSimulator))) \<and>
   cycleCount (pause (tick (envAt 2000 0) (start 0 (envAt 0 0) mainSimulator))) = 1 \<and>
   length (dashboard (pause (tick (envAt 2000 0) (start 0 (envAt 0 0) mainSimulator)))) = 1 \<and>
   cycleCount
     (step (envAt 3000 0) (pause (tick (envAt 2000 0) (start 0 (envAt 0 0) mainSimulator)))) = 1 \<and>
   length (dashboard
     (step (envAt 3000 0) (pause (tick (envAt 2000 0) (start 0 (envAt 0 0) mainSimulator))))) = 1"
proof -
  have ev: "isRunning (pause (tick (envAt 2000 0) (start 0 (envAt 0 0) mainSimulator))) \<and>
     isPaused (pause (tick (envAt 2000 0) (start 0 (envAt 0 0) mainSimulator))) \<and>
     cycleCount (pause (tick (envAt 2000 0) (start 0 (envAt 0 0) mainSimulator))) = 1 \<and>
     length (dashboard (pause (tick (envAt 2000 0) (start 0 (envAt 0 0) mainSimulator)))) = 1"
    by code_simp
  show ?thesis
    using ev step_performs_no_cycle
      [of "envAt 3000 0" "pause (tick (envAt 2000 0) (start 0 (envAt 0 0) mainSimulator))"]
    by simp
qed

text \<open>
  C5. The claim is that \<open>start\<close> on a paused scheduler is \<open>resume\<close>. On a running, paused
  simulator \<open>start\<close> only clears the pause flag, while \<open>resume\<close> also moves
  \<open>simulationStartTime\<close> to \<open>now - pausedAtSeconds * 1000\<close>.
\<close>

theorem start_while_paused_differs_from_resume:
  assumes "isRunning s" and "isPaused s"
  shows "start d e s = s\<lparr>isPaused := False\<rparr> \<and>
         resume e s = s\<lparr>isPaused := False,
                          simulationStartTime := Some (now e - pausedAtSeconds s * 1000)\<rparr>"
  using assms by (simp add: start_def resume_def)

text \<open>
  Started at time 0 and paused after the tick at 4 s, then continued at 10 s: the tick at
  12 s reads 6 elapsed seconds after \<open>resume\<close> and 12 after \<open>start\<close>, which counts the six
  seconds spent paused.
\<close>

theorem start_while_paused_differs_from_resume_witness:
  "isRunning (pause (tick (envAt 4000 0) (start 0 (envAt 0 0) mainSimulator))) \<and>
   isPaused (pause (tick (envAt 4000 0) (start 0 (envAt 0 0) mainSimulator))) \<and>
   elapsedTimeSeconds (pause (tick (envAt 4000 0) (start 0 (envAt 0 0) mainSimulator))) = 4 \<and>
   simulationStartTime
     (resume (envAt 10000 0) (pause (tick (envAt 4000 0) (start 0 (envAt 0 0) mainSimulator))))
     = Some 6000 \<and>
   simulationStartTime
     (start 0 (envAt 10000 0) (pause (tick (envAt 4000 0) (start 0 (envAt 0 0) mainSimulator))))
     = Some 0 \<and>
   elapsedTimeSeconds
     (tick (envAt 12000 0)
        (resume (envAt 10000 0) (pause (tick (envAt 4000 0) (start 0 (envAt 0 0) mainSimulator)))))
     = 6 \<and>
   elapsedTimeSeconds
     (tick (envAt 12000 0)
        (start 0 (envAt 10000 0) (pause (tick (envAt 4000 0) (start 0 (envAt 0 0) mainSimulator)))))
     = 12"
proof -
  let ?s = "pause (tick (envAt 4000 0) (start 0 (envAt 0 0) mainSimulator))"
  let ?e = "envAt 10000 0"
  have h1: "isRunning ?s" by code_simp
  have h2: "isPaused ?s" by code_simp
  have ev: "elapsedTimeSeconds ?s = 4"
    "simulationStartTime
       (?s\<lparr>isPaused := False,
            simulationStartTime := Some (now ?e - pausedAtSeconds ?s * 1000)\<rparr>) = Some 6000"
    "simulationStartTime (?s\<lparr>isPaused := False\<rparr>) = Some 0"
    "elapsedTimeSeconds
       (tick (envAt 12000 0)
          (?s\<lparr>isPaused := False,
               simulationStartTime := Some (now ?e - pausedAtSeconds ?s * 1000)\<rparr>)) = 6"
    "elapsedTimeSeconds (tick (envAt 12000 0) (?s\<lparr>isPaused := False\<rparr>)) = 12"
    by code_simp+
  have eq1: "start 0 ?e ?s = ?s\<lparr>isPaused := False\<rparr>"
    and eq2: "resume ?e ?s
      = ?s\<lparr>isPaused := False, simulationStartTime := Some (now ?e - pausedAtSeconds ?s * 1000)\<rparr>"
    using start_while_paused_differs_from_resume [OF h1 h2, of 0 ?e] by blast+
  show ?thesis unfolding eq1 eq2 using h1 h2 ev by blast
qed

section \<open>The sensor\<close>

text \<open>
  C8. The claim is that \<open>reset()\<close> discards the smoothing state. \<open>reset\<close> clears the
  override and sets the last reading to 50, but a sensor that has been sampled keeps its
  accumulator \<open>m\<close>, and the next sample blends the fresh target with \<open>m\<close>.
\<close>

theorem reset_keeps_smoothing_state:
  assumes "smoothedDensity s = Some m"
  shows "overrideDensity (VirtualSensor_reset s) = None \<and>
         lastDensity (VirtualSensor_reset s) = 50 \<and>
         smoothedDensity (VirtualSensor_reset s) = Some m \<and>
         fst (generateDensity hour z (VirtualSensor_reset s))
           = max 0 (min 100
               (m + emaCoefficient s *
                  (max 0 (min 100 (gaussianRandom 50 15 z * peakFactor hour)) - m)))"
  using assms by (simp add: VirtualSensor_reset_def generateDensity_def Let_def)

text \<open>
  A sensor sampled once at target 80, then reset, then sampled at target 20 returns
  \<open>80 + 0.7 * (20 - 80) = 38\<close>; a fresh sensor returns 20.
\<close>

theorem reset_keeps_smoothing_state_witness:
  "smoothedDensity (snd (generateDensity None 2 (mainSensor ''north'' 40))) = Some 80 \<and>
   fst (generateDensity None (- 2)
          (VirtualSensor_reset (snd (generateDensity None 2 (mainSensor ''north'' 40))))) = 38 \<and>
   fst (generateDensity None (- 2) (mainSensor ''north'' 40)) = 20"
proof -
  let ?s = "snd (generateDensity None 2 (mainSensor ''north'' 40))"
  have h: "smoothedDensity ?s = Some 80" by code_simp
  have ev: "max 0 (min 100
               (80 + emaCoefficient ?s *
                  (max 0 (min 100 (gaussianRandom 50 15 (- 2) * peakFactor None)) - 80))) = 38 \<and>
            fst (generateDensity None (- 2) (mainSensor ''north'' 40)) = 20"
    by code_simp
  show ?thesis using reset_keeps_smoothing_state [OF h, of None "- 2"] h ev by simp
qed

end
